(* ===== verification/Prelude.thy ===== *)
theory Prelude
  imports Main "HOL-Library.AList" "HOL-Library.Code_Target_Numeral" "HOL-Library.Sublist"
begin

text \<open>
  Shared vocabulary of the model of \<^verbatim>\<open>src/generate-docker-compose.js\<close>:
  the character constants the generated text is made of, the line-joining helper
  the template literals are translated with, the collection \<open>model_simps\<close> of
  evaluation rules that the component theories declare and the witnesses use,
  and generic lemmas on association lists and strings that several components
  share.
\<close>

named_theorems model_simps "evaluation rules of the model, used to compute concrete runs"

subsection \<open>Characters and lines\<close>

text \<open>
  Isabelle's string literals cannot contain a newline, a backslash or a single quote,
  so these characters are named.
\<close>

definition nl :: string where
  "nl = [CHR 0x0A]"

definition sq :: char where
  "sq = CHR 0x27"

definition dq :: char where
  "dq = CHR 0x22"

definition bsl :: char where
  "bsl = CHR 0x5C"

text \<open>
  A multi-line template literal is the list of its lines, each ended by a newline.
\<close>

definition lns :: "string list \<Rightarrow> string" where
  "lns ls = concat (map (\<lambda>l. l @ nl) ls)"

text \<open>\<open>join sep xs\<close> is JavaScript's \<^verbatim>\<open>xs.join(sep)\<close> on strings.\<close>

fun join :: "string \<Rightarrow> string list \<Rightarrow> string" where
  "join sep [] = []"
| "join sep [x] = x"
| "join sep (x # y # zs) = x @ sep @ join sep (y # zs)"

lemma lns_simps [simp, model_simps]:
  "lns [] = []"
  "lns (l # ls) = l @ nl @ lns ls"
  by (simp_all add: lns_def)

lemma lns_append [simp]: "lns (xs @ ys) = lns xs @ lns ys"
  by (simp add: lns_def)

lemma char_defs [model_simps]:
  "nl = [CHR 0x0A]" "sq = CHR 0x27" "dq = CHR 0x22" "bsl = CHR 0x5C"
  by (simp_all add: nl_def sq_def dq_def bsl_def)

lemma nl_not_sq [simp]: "sq \<notin> set nl"
  by (simp add: nl_def sq_def)

lemma set_join_subset: "set (join sep xs) \<subseteq> set sep \<union> \<Union> (set ` set xs)"
  by (induction sep xs rule: join.induct) auto

lemma join_Nil_sep [simp]: "join [] xs = concat xs"
  by (induction "[] :: string" xs rule: join.induct) auto

subsection \<open>Association lists\<close>

text \<open>
  Lemmas on \<open>map_of\<close> and the keys of association lists, used by the model of
  JavaScript objects.
\<close>

lemma map_of_fold_update:
  "map_of (fold (\<lambda>(k, v). AList.update k v) ps al) = map_of al ++ map_of (rev ps)"
proof (induction ps arbitrary: al)
  case Nil
  then show ?case by simp
next
  case (Cons p ps)
  obtain k v where p: "p = (k, v)" by (cases p)
  have "map_of (fold (\<lambda>(k, v). AList.update k v) (p # ps) al) =
      map_of (AList.update k v al) ++ map_of (rev ps)"
    using Cons.IH by (simp add: p)
  also have "\<dots> = map_of al ++ map_of (rev (p # ps))"
    by (simp add: p update_conv' map_add_upd [symmetric] map_add_assoc)
  finally show ?case .
qed

lemma map_of_rev_distinct:
  "distinct (map fst xs) \<Longrightarrow> map_of (rev xs) = map_of xs"
  by (simp add: map_of_inject_set rev_map [symmetric])

lemma distinct_fold_update:
  "distinct (map fst al) \<Longrightarrow> distinct (map fst (fold (\<lambda>(k, v). AList.update k v) ps al))"
  by (induction ps arbitrary: al) (auto simp: distinct_update)

lemma keys_fold_update:
  "fst ` set (fold (\<lambda>(k, v). AList.update k v) ps al) = fst ` set al \<union> fst ` set ps"
  by (induction ps arbitrary: al) (auto simp: dom_update split: prod.splits)

subsection \<open>Infixes of generated text\<close>

lemma sublist_trans': "sublist a b \<Longrightarrow> sublist b c \<Longrightarrow> sublist a c"
  unfolding sublist_def by (metis append_assoc)

lemma sublist_concat: "x \<in> set xs \<Longrightarrow> sublist x (concat xs)"
  by (metis concat.simps(2) concat_append in_set_conv_decomp sublist_appendI)

lemma sublist_lns: "x \<in> set ls \<Longrightarrow> sublist (x @ nl) (lns ls)"
proof -
  assume "x \<in> set ls"
  then obtain us ws where "ls = us @ x # ws" by (auto simp: in_set_conv_decomp)
  then show ?thesis by (metis append_assoc lns_append lns_simps(2) sublist_appendI)
qed

end
