(* ===== verification/Decimal.thy ===== *)
theory Decimal
  imports Prelude
begin

text \<open>
  JavaScript's conversion of an integral number to its decimal string
  (\<^verbatim>\<open>Number::toString\<close> of ECMAScript, as used by every \<^verbatim>\<open>${...}\<close> of a
  template literal in \<^verbatim>\<open>src/generate-docker-compose.js\<close> on an index, a port
  prefix or a peer index), and the reading of a decimal string back into a number.
  The lemmas show that printing then reading is the identity, that printing is
  injective and yields no leading zero, and how printing a number with a fixed
  decimal suffix is appended text: the fact behind the port strings
  \<^verbatim>\<open>${i + 2}010\<close>.
\<close>

definition digit_char :: "nat \<Rightarrow> char" where
  "digit_char d = char_of (48 + d)"

fun string_of_nat :: "nat \<Rightarrow> string" where
  "string_of_nat n =
     (let q = n div 10 in (if q = 0 then [] else string_of_nat q) @ [digit_char (n mod 10)])"

definition string_of_int :: "int \<Rightarrow> string" where
  "string_of_int i = (if 0 \<le> i then string_of_nat (nat i) else CHR ''-'' # string_of_nat (nat \<bar>i\<bar>))"

definition is_digit :: "char \<Rightarrow> bool" where
  "is_digit c \<longleftrightarrow> 48 \<le> (of_char c :: nat) \<and> (of_char c :: nat) < 58"

definition digit_val :: "char \<Rightarrow> nat" where
  "digit_val c = of_char c - 48"

definition nat_of_string :: "string \<Rightarrow> nat" where
  "nat_of_string s = foldl (\<lambda>acc c. 10 * acc + digit_val c) 0 s"

declare string_of_nat.simps [simp del]

subsection \<open>Single digits\<close>

lemma digit_val_digit_char [simp]: "d < 10 \<Longrightarrow> digit_val (digit_char d) = d"
  by (simp add: digit_val_def digit_char_def)

lemma is_digit_digit_char [simp]: "d < 10 \<Longrightarrow> is_digit (digit_char d)"
  by (simp add: is_digit_def digit_char_def)

lemma digit_char_inj: "d < 10 \<Longrightarrow> e < 10 \<Longrightarrow> digit_char d = digit_char e \<Longrightarrow> d = e"
  by (metis digit_val_digit_char)

lemma digit_char_eq_0: "d < 10 \<Longrightarrow> digit_char d = CHR ''0'' \<longleftrightarrow> d = 0"
  by (simp add: digit_char_def char_of_eq_iff take_bit_eq_mod)

lemma digit_char_simps [simp, model_simps]:
  "digit_char 0 = CHR ''0''" "digit_char 1 = CHR ''1''" "digit_char 2 = CHR ''2''"
  "digit_char 3 = CHR ''3''" "digit_char 4 = CHR ''4''" "digit_char 5 = CHR ''5''"
  "digit_char 6 = CHR ''6''" "digit_char 7 = CHR ''7''" "digit_char 8 = CHR ''8''"
  "digit_char 9 = CHR ''9''" "digit_char (Suc 0) = CHR ''1''"
  by (simp_all add: digit_char_def char_of_eq_iff take_bit_eq_mod)

lemma not_digit_sq [simp]: "\<not> is_digit sq"
  by (simp add: is_digit_def sq_def)

subsection \<open>Printing\<close>

lemma string_of_nat_small [simp]: "n < 10 \<Longrightarrow> string_of_nat n = [digit_char n]"
  by (simp add: string_of_nat.simps)

lemma string_of_nat_big:
  "\<not> n < 10 \<Longrightarrow> string_of_nat n = string_of_nat (n div 10) @ [digit_char (n mod 10)]"
  by (subst string_of_nat.simps) (simp add: Let_def)

lemma string_of_nat_step:
  "0 < a \<Longrightarrow> d < 10 \<Longrightarrow> string_of_nat (10 * a + d) = string_of_nat a @ [digit_char d]"
  by (subst string_of_nat_big) simp_all

lemma string_of_nat_not_Nil [simp]: "string_of_nat n \<noteq> []"
  by (subst string_of_nat.simps) (simp add: Let_def)

lemma string_of_nat_digits: "\<forall>c \<in> set (string_of_nat n). is_digit c"
proof (induction n rule: string_of_nat.induct)
  case (1 n)
  then show ?case by (subst string_of_nat.simps) (auto simp: Let_def)
qed

lemma sq_notin_string_of_nat [simp]: "sq \<notin> set (string_of_nat n)"
  using string_of_nat_digits [of n] not_digit_sq by blast

lemma hd_string_of_nat: "hd (string_of_nat n) = CHR ''0'' \<longleftrightarrow> n = 0"
proof (induction n rule: string_of_nat.induct)
  case (1 n)
  show ?case
  proof (cases "n < 10")
    case True
    then show ?thesis by (simp add: digit_char_eq_0)
  next
    case False
    with "1.IH" show ?thesis by (simp add: string_of_nat_big)
  qed
qed

subsection \<open>Reading back\<close>

lemma nat_of_string_snoc: "nat_of_string (s @ [c]) = 10 * nat_of_string s + digit_val c"
  by (simp add: nat_of_string_def)

theorem nat_of_string_of_nat [simp]: "nat_of_string (string_of_nat n) = n"
proof (induction n rule: string_of_nat.induct)
  case (1 n)
  show ?case
  proof (cases "n < 10")
    case True
    then show ?thesis by (simp add: nat_of_string_def)
  next
    case False
    with "1.IH" show ?thesis by (simp add: string_of_nat_big nat_of_string_snoc)
  qed
qed

lemma string_of_nat_inj: "string_of_nat m = string_of_nat n \<longleftrightarrow> m = n"
  by (metis nat_of_string_of_nat)

subsection \<open>Fixed decimal suffixes\<close>

text \<open>
  Appending the digits of \<open>d\<close>, padded to three places, to the decimal string of a
  positive \<open>a\<close> is printing \<open>1000 * a + d\<close>.
\<close>

lemma string_of_nat_thousands:
  assumes "0 < a" "d < 1000"
  shows "string_of_nat (1000 * a + d) =
    string_of_nat a @ [digit_char (d div 100), digit_char (d div 10 mod 10), digit_char (d mod 10)]"
proof -
  have h: "d div 100 = d div 10 div 10"
    by (simp add: div_mult2_eq [symmetric])
  have e1: "d div 10 = 10 * (d div 10 div 10) + d div 10 mod 10"
    by simp
  have e2: "d = 10 * (d div 10) + d mod 10"
    by simp
  have s0: "1000 * a + d = 10 * (10 * (10 * a + d div 100) + d div 10 mod 10) + d mod 10"
    unfolding h by (subst (1) e2, subst (1) e1) simp
  have s1: "string_of_nat (10 * (10 * (10 * a + d div 100) + d div 10 mod 10) + d mod 10) =
      string_of_nat (10 * (10 * a + d div 100) + d div 10 mod 10) @ [digit_char (d mod 10)]"
    using assms by (intro string_of_nat_step) simp_all
  have s2: "string_of_nat (10 * (10 * a + d div 100) + d div 10 mod 10) =
      string_of_nat (10 * a + d div 100) @ [digit_char (d div 10 mod 10)]"
    using assms by (intro string_of_nat_step) simp_all
  have s3: "string_of_nat (10 * a + d div 100) = string_of_nat a @ [digit_char (d div 100)]"
    using assms by (intro string_of_nat_step) simp_all
  show ?thesis
    by (simp only: s0 s1 s2 s3 append_assoc append_Cons append_Nil)
qed

end
