(* ===== verification/JsValue.thy ===== *)
theory JsValue
  imports Decimal "HOL-Library.Multiset"
begin

text \<open>
  The JavaScript values the generator builds and reads, and the built-in operations
  \<^verbatim>\<open>src/generate-docker-compose.js\<close> applies to them: property read
  (\<^verbatim>\<open>ledger.currency\<close>), property write (\<^verbatim>\<open>config.options.rpcUri = ...\<close>),
  object literals with computed keys (\<^verbatim>\<open>{[ledgers[i].name]: ...}\<close>), the
  truth test of \<^verbatim>\<open>if (ledger.rpcUri)\<close> (ToBoolean), the string conversion of a
  computed key or of a template interpolation (ToString), the order in which an
  object's own keys are enumerated, and \<^verbatim>\<open>Object.assign\<close>.

  An object is an association list in property-creation order; its enumeration
  order is computed by \<open>own_keys_order\<close> as ECMAScript's
  [[OwnPropertyKeys]] prescribes (array-index keys ascending, then the other keys in
  creation order). Numbers are integers: the program only computes with indices,
  and the ledger file's numbers are carried through unchanged.

  The invariant of the section is \<open>wf_obj\<close>: an object's keys are distinct.
  Every operation that builds an object keeps it, and on such objects
  \<^verbatim>\<open>Object.assign\<close> is the right-biased union of its sources.
\<close>

datatype jsv =
    Undef
  | Null
  | Bool bool
  | Num int
  | Str string
  | Arr "jsv list"
  | Obj "(string \<times> jsv) list"

type_synonym jobj = "(string \<times> jsv) list"

subsection \<open>Conversions\<close>

text \<open>ToBoolean: the test of \<^verbatim>\<open>if (v)\<close>, \<^verbatim>\<open>v ? a : b\<close> and \<^verbatim>\<open>!v\<close>.\<close>

fun truthy :: "jsv \<Rightarrow> bool" where
  "truthy Undef = False"
| "truthy Null = False"
| "truthy (Bool b) = b"
| "truthy (Num n) = (n \<noteq> 0)"
| "truthy (Str s) = (s \<noteq> [])"
| "truthy (Arr vs) = True"
| "truthy (Obj kvs) = True"

text \<open>
  ToString: the key of a computed property \<^verbatim>\<open>[k]\<close> and the text of a template
  interpolation \<^verbatim>\<open>${v}\<close>. An array prints as its elements joined by commas,
  \<^verbatim>\<open>undefined\<close> and \<^verbatim>\<open>null\<close> elements as the empty string.
\<close>

fun to_string :: "jsv \<Rightarrow> string" where
  "to_string Undef = ''undefined''"
| "to_string Null = ''null''"
| "to_string (Bool b) = (if b then ''true'' else ''false'')"
| "to_string (Num n) = string_of_int n"
| "to_string (Str s) = s"
| "to_string (Arr vs) = join '','' (map (\<lambda>v. if v = Undef \<or> v = Null then [] else to_string v) vs)"
| "to_string (Obj kvs) = ''[object Object]''"

subsection \<open>Objects\<close>

text \<open>[[Get]] of an own property; a missing property reads as \<^verbatim>\<open>undefined\<close>.\<close>

definition get_prop :: "jobj \<Rightarrow> string \<Rightarrow> jsv" where
  "get_prop ob k = (case map_of ob k of None \<Rightarrow> Undef | Some v \<Rightarrow> v)"

text \<open>
  [[Set]] on an ordinary object: an existing property keeps its place and takes the
  new value, a new one is created last.
\<close>

fun obj_set :: "string \<Rightarrow> jsv \<Rightarrow> jobj \<Rightarrow> jobj" where
  "obj_set k v [] = [(k, v)]"
| "obj_set k v ((k', v') # ps) = (if k' = k then (k, v) # ps else (k', v') # obj_set k v ps)"

text \<open>
  An object literal \<^verbatim>\<open>{k1: v1, [k2]: v2, ...}\<close> creates its properties left to
  right; a repeated key overwrites the earlier value in the earlier place.
\<close>

definition obj_lit :: "(string \<times> jsv) list \<Rightarrow> jobj" where
  "obj_lit ps = fold (\<lambda>(k, v). obj_set k v) ps []"

text \<open>
  An array index is a canonical decimal string of a number below \<open>2^32 - 1\<close>.
  Own keys are enumerated array indices first, ascending, then the other keys in
  creation order.
\<close>

definition is_array_index :: "string \<Rightarrow> bool" where
  "is_array_index k \<longleftrightarrow>
     k \<noteq> [] \<and> (\<forall>c \<in> set k. is_digit c) \<and> (k = ''0'' \<or> hd k \<noteq> CHR ''0'') \<and>
     nat_of_string k < 4294967295"

definition own_keys_order :: "(string \<times> 'a) list \<Rightarrow> (string \<times> 'a) list" where
  "own_keys_order kvs =
     sort_key (\<lambda>(k, v). nat_of_string k) (filter (\<lambda>(k, v). is_array_index k) kvs) @
     filter (\<lambda>(k, v). \<not> is_array_index k) kvs"

text \<open>
  The own enumerable string-keyed properties \<^verbatim>\<open>Object.assign\<close> copies from a
  source: an object's properties in enumeration order, a string's characters and an
  array's elements under their indices; \<^verbatim>\<open>undefined\<close>, \<^verbatim>\<open>null\<close>,
  booleans and numbers have none.
\<close>

fun own_props :: "jsv \<Rightarrow> jobj" where
  "own_props (Obj kvs) = own_keys_order kvs"
| "own_props (Str s) = zip (map string_of_nat [0..<length s]) (map (\<lambda>c. Str [c]) s)"
| "own_props (Arr vs) = zip (map string_of_nat [0..<length vs]) vs"
| "own_props _ = []"

text \<open>\<^verbatim>\<open>Object.assign(target, ...sources)\<close>: each source's properties are set on the target in turn.\<close>

definition obj_assign :: "jobj \<Rightarrow> jsv list \<Rightarrow> jobj" where
  "obj_assign target sources =
     fold (\<lambda>src t. fold (\<lambda>(k, v). obj_set k v) (own_props src) t) sources target"

definition wf_obj :: "jobj \<Rightarrow> bool" where
  "wf_obj ob \<longleftrightarrow> distinct (map fst ob)"

subsection \<open>Property write is the library's association-list update\<close>

lemma obj_set_update: "obj_set k v ps = AList.update k v ps"
  by (induction ps) auto

lemma obj_set_fold_update:
  "fold (\<lambda>(k, v). obj_set k v) ps al = fold (\<lambda>(k, v). AList.update k v) ps al"
  by (simp add: obj_set_update [abs_def])

lemma map_of_obj_set [simp]: "map_of (obj_set k v ps) = (map_of ps)(k \<mapsto> v)"
  by (simp add: obj_set_update update_conv')

lemma get_prop_obj_set [simp]:
  "get_prop (obj_set k v ps) k' = (if k' = k then v else get_prop ps k')"
  by (simp add: get_prop_def)

lemma wf_obj_obj_set [simp]: "wf_obj ps \<Longrightarrow> wf_obj (obj_set k v ps)"
  by (simp add: wf_obj_def obj_set_update distinct_update)

lemma keys_obj_set [simp]: "fst ` set (obj_set k v ps) = insert k (fst ` set ps)"
  by (simp add: obj_set_update dom_update)

lemma obj_set_existing:
  "k \<in> fst ` set ps \<Longrightarrow> map fst (obj_set k v ps) = map fst ps"
  by (induction ps) (auto simp: rev_image_eqI)

lemma obj_set_new:
  "k \<notin> fst ` set ps \<Longrightarrow> obj_set k v ps = ps @ [(k, v)]"
  by (induction ps) auto

subsection \<open>Object literals\<close>

lemma obj_lit_simps [model_simps]:
  "obj_lit [] = []"
  "obj_lit (ps @ [(k, v)]) = obj_set k v (obj_lit ps)"
  by (simp_all add: obj_lit_def)

lemma wf_obj_lit [simp]: "wf_obj (obj_lit ps)"
  by (simp add: obj_lit_def obj_set_fold_update wf_obj_def distinct_fold_update)

lemma map_of_obj_lit: "map_of (obj_lit ps) = map_of (rev ps)"
  by (simp add: obj_lit_def obj_set_fold_update map_of_fold_update)

lemma keys_obj_lit: "fst ` set (obj_lit ps) = fst ` set ps"
  by (simp add: obj_lit_def obj_set_fold_update keys_fold_update)

lemma obj_lit_distinct: "distinct (map fst ps) \<Longrightarrow> obj_lit ps = ps"
proof (induction ps rule: rev_induct)
  case Nil
  then show ?case by (simp add: obj_lit_def)
next
  case (snoc p ps)
  obtain k v where p: "p = (k, v)" by (cases p)
  from snoc.prems have "k \<notin> fst ` set ps" "distinct (map fst ps)"
    by (auto simp: p)
  with snoc.IH show ?case
    by (simp add: p obj_lit_simps obj_set_new keys_obj_lit)
qed

subsection \<open>Enumeration order\<close>

lemma mset_own_keys_order: "mset (own_keys_order kvs) = mset kvs"
  by (simp add: own_keys_order_def)

lemma set_own_keys_order [simp]: "set (own_keys_order kvs) = set kvs"
  by (metis mset_own_keys_order set_mset_mset)

lemma wf_own_keys_order [simp]: "wf_obj (own_keys_order kvs) \<longleftrightarrow> wf_obj kvs"
proof -
  have "mset (map fst (own_keys_order kvs)) = mset (map fst kvs)"
    by (simp add: mset_own_keys_order)
  then show ?thesis
    unfolding wf_obj_def by (rule mset_eq_imp_distinct_iff)
qed

lemma map_of_own_keys_order:
  "wf_obj kvs \<Longrightarrow> map_of (own_keys_order kvs) = map_of kvs"
  by (simp add: map_of_inject_set wf_obj_def [symmetric])

lemma own_keys_order_plain:
  "\<forall>(k, v) \<in> set kvs. \<not> is_array_index k \<Longrightarrow> own_keys_order kvs = kvs"
proof -
  assume h: "\<forall>(k, v) \<in> set kvs. \<not> is_array_index k"
  then have "filter (\<lambda>(k, v). is_array_index k) kvs = []"
    by (auto simp: filter_empty_conv)
  moreover from h have "filter (\<lambda>(k, v). \<not> is_array_index k) kvs = kvs"
    by (auto simp: filter_id_conv)
  ultimately show ?thesis by (simp add: own_keys_order_def)
qed

subsection \<open>Object.assign\<close>

text \<open>A source whose own properties have distinct keys: any value but an ill-formed object.\<close>

definition wf_src :: "jsv \<Rightarrow> bool" where
  "wf_src v \<longleftrightarrow> (case v of Obj kvs \<Rightarrow> wf_obj kvs | _ \<Rightarrow> True)"

lemma wf_own_props: "wf_src v \<Longrightarrow> wf_obj (own_props v)"
proof (cases v)
  case (Str s)
  then show ?thesis
    by (simp add: wf_obj_def distinct_map string_of_nat_inj inj_on_def)
next
  case (Arr vs)
  then show ?thesis
    by (simp add: wf_obj_def distinct_map string_of_nat_inj inj_on_def)
qed (simp_all add: wf_obj_def wf_src_def wf_own_keys_order [unfolded wf_obj_def])

lemma obj_assign_simps [model_simps]:
  "obj_assign t [] = t"
  "obj_assign t (src # srcs) = obj_assign (fold (\<lambda>(k, v). obj_set k v) (own_props src) t) srcs"
  by (simp_all add: obj_assign_def)

lemma wf_obj_assign: "wf_obj t \<Longrightarrow> wf_obj (obj_assign t srcs)"
  by (induction srcs arbitrary: t)
    (simp_all add: obj_assign_simps obj_set_fold_update wf_obj_def distinct_fold_update)

lemma map_of_own_props_rev: "wf_src v \<Longrightarrow> map_of (rev (own_props v)) = map_of (own_props v)"
  using wf_own_props [of v] by (simp add: map_of_rev_distinct wf_obj_def)

text \<open>
  The properties of the target and of every source, later sources overriding
  earlier ones.
\<close>

lemma map_of_obj_assign:
  "\<forall>v \<in> set srcs. wf_src v \<Longrightarrow>
    map_of (obj_assign t srcs) = fold (\<lambda>src m. m ++ map_of (own_props src)) srcs (map_of t)"
  by (induction srcs arbitrary: t)
    (simp_all add: obj_assign_simps obj_set_fold_update map_of_fold_update map_of_own_props_rev)

lemma map_of_own_props_Obj [simp]: "wf_obj kvs \<Longrightarrow> map_of (own_props (Obj kvs)) = map_of kvs"
  by (simp add: map_of_own_keys_order)

end
