(* ===== verification/PeerResolver.thy ===== *)
theory PeerResolver
  imports JsValue
begin

text \<open>
  The peer resolver, \<^verbatim>\<open>peerToSide\<close> of \<^verbatim>\<open>src/generate-docker-compose.js\<close>
  (lines 46--48): the index of a node's neighbour on the ring of ledgers, the next
  index on the left side and the previous one on the right side. The ledger list is
  the script's global \<^verbatim>\<open>ledgers\<close>, passed explicitly.

  JavaScript's \<^verbatim>\<open>%\<close> is the remainder with the sign of the dividend, and by
  zero it is \<^verbatim>\<open>NaN\<close>; \<open>js_rem\<close> returns \<open>None\<close> for \<^verbatim>\<open>NaN\<close>.
  The lemmas show that on a non-empty ring and an index in range the function is the
  spec's modular neighbour, in range, that the two sides are inverse to each other,
  and that on an empty ring it is \<^verbatim>\<open>NaN\<close>.
\<close>

definition js_rem :: "int \<Rightarrow> int \<Rightarrow> int option" where
  "js_rem a b = (if b = 0 then None else Some (sgn a * (\<bar>a\<bar> mod \<bar>b\<bar>)))"

definition peerToSide :: "jobj list \<Rightarrow> bool \<Rightarrow> int \<Rightarrow> int option" where
  "peerToSide ledgers isLeft n =
     js_rem ((n + (if isLeft then 1 else -1)) + int (length ledgers)) (int (length ledgers))"

lemma js_rem_nonneg [simp]: "0 \<le> a \<Longrightarrow> 0 < b \<Longrightarrow> js_rem a b = Some (a mod b)"
  by (cases "a = 0") (simp_all add: js_rem_def)

lemma js_rem_zero [simp]: "js_rem a 0 = None"
  by (simp add: js_rem_def)

text \<open>The neighbour index on a ring of \<open>N > 0\<close> ledgers, for an index in \<open>[0, N)\<close>.\<close>

lemma peerToSide_left:
  "0 < length ledgers \<Longrightarrow> 0 \<le> n \<Longrightarrow>
    peerToSide ledgers True n = Some ((n + 1) mod int (length ledgers))"
  by (simp add: peerToSide_def)

lemma peerToSide_right:
  assumes "0 < length ledgers" "0 \<le> n"
  shows "peerToSide ledgers False n = Some ((n - 1 + int (length ledgers)) mod int (length ledgers))"
proof -
  from assms have "0 \<le> n - 1 + int (length ledgers)" and "0 < int (length ledgers)"
    by arith+
  then show ?thesis
    by (simp only: peerToSide_def if_False js_rem_nonneg add.assoc [symmetric] diff_conv_add_uminus)
qed

lemmas peerToSide_eqs = peerToSide_left peerToSide_right

lemma peerToSide_range:
  assumes "0 < length ledgers" "0 \<le> n"
  shows "\<exists>p. peerToSide ledgers isLeft n = Some p \<and> 0 \<le> p \<and> p < int (length ledgers)"
  using assms by (cases isLeft) (simp_all add: peerToSide_eqs)

lemma peerToSide_empty: "peerToSide [] isLeft n = None"
  by (simp add: peerToSide_def)

subsection \<open>Properties\<close>

text \<open>
  C1: on a ring of \<open>N \<ge> 1\<close> ledgers and a non-negative index \<open>n\<close>,
  \<^verbatim>\<open>peerToSide\<close> returns the next index \<open>(n + 1) mod N\<close> for the left side and
  \<open>(n - 1 + N) mod N\<close> for the right side, and every result lies in \<open>[0, N)\<close>:
  JavaScript's sign-of-dividend remainder never goes negative here.
\<close>

theorem peerToSide_correct:
  assumes "0 < length ledgers" "0 \<le> n"
  shows "peerToSide ledgers True n = Some ((n + 1) mod int (length ledgers)) \<and>
    peerToSide ledgers False n = Some ((n - 1 + int (length ledgers)) mod int (length ledgers)) \<and>
    (\<forall>isLeft. \<exists>p. peerToSide ledgers isLeft n = Some p \<and> 0 \<le> p \<and> p < int (length ledgers))"
  using assms peerToSide_range by (simp add: peerToSide_eqs)

theorem peerToSide_correct_witness:
  "peerToSide [[], [], []] True 0 = Some 1 \<and> peerToSide [[], [], []] False 0 = Some 2"
  using peerToSide_correct [of "[[], [], []]" 0] by simp

text \<open>
  C2: the two sides are inverse: the left neighbour of the right neighbour of a node
  of the ring is the node itself, so the ring has no gap and no shortcut.
\<close>

theorem peerToSide_inverse:
  assumes "0 \<le> n" "n < int (length ledgers)" "peerToSide ledgers False n = Some p"
  shows "peerToSide ledgers True p = Some n"
proof -
  from assms(1,2) have N: "0 < length ledgers" by arith
  with assms(1,3) have p: "p = (n - 1 + int (length ledgers)) mod int (length ledgers)"
    by (simp add: peerToSide_right)
  then have "0 \<le> p" using N by simp
  with N have "peerToSide ledgers True p = Some ((p + 1) mod int (length ledgers))"
    by (simp add: peerToSide_left)
  also have "(p + 1) mod int (length ledgers) = n"
    using assms(1,2) by (simp add: p mod_add_left_eq)
  finally show ?thesis .
qed

theorem peerToSide_inverse_witness:
  "peerToSide [[], [], []] False 0 = Some 2 \<and> peerToSide [[], [], []] True 2 = Some 0"
proof -
  have r: "peerToSide [[], [], []] False 0 = Some 2"
    by (simp add: peerToSide_def)
  show ?thesis
    using r peerToSide_inverse [of 0 "[[], [], []]" 2] by simp
qed

end
