(* ===== verification/ServiceConfig.thy ===== *)
theory ServiceConfig
  imports PeerResolver
begin

text \<open>
  The service config builder, \<^verbatim>\<open>createConfig\<close> of
  \<^verbatim>\<open>src/generate-docker-compose.js\<close> (lines 50--76), and the diagnostic log
  the generator writes to standard error. The log is returned as a list of
  \<open>diag\<close> entries beside the result: one constructor per \<^verbatim>\<open>console.error\<close>
  call of the script, carrying the values it prints (their textual rendering by
  Node's inspector is not modelled). The components that log
  (\<^verbatim>\<open>createConfig\<close>, \<^verbatim>\<open>generateConnectorLedgers\<close>,
  \<^verbatim>\<open>generateConnectorRoutes\<close>) all produce this type.

  \<^verbatim>\<open>createConfig\<close> builds \<^verbatim>\<open>{currency, plugin, store, options}\<close> with
  \<^verbatim>\<open>options = Object.assign({}, optionsCommon, optionsLeft or optionsRight)\<close>,
  then sets \<^verbatim>\<open>options.rpcUri\<close> (when the ledger's \<^verbatim>\<open>rpcUri\<close> is truthy) or
  \<^verbatim>\<open>options.rpcUris\<close> (when its \<^verbatim>\<open>rpcUris\<close> is) to the peer's RPC address.
  The options object is fresh and only reachable from the config, so setting a
  property on it before or after placing it in the config literal is the same
  object; the model sets it first.
\<close>

datatype diag =
    LogRpcUri nat string
  | LogRpcUris nat jobj
  | LogKeys nat "string list"
  | LogRoutes nat jsv

text \<open>The text of a number in a template, \<^verbatim>\<open>NaN\<close> included.\<close>

definition num_text :: "int option \<Rightarrow> string" where
  "num_text p = (case p of None \<Rightarrow> ''NaN'' | Some x \<Rightarrow> string_of_int x)"

definition rpc_url :: "int option \<Rightarrow> string" where
  "rpc_url pn =
     ''http://ilp-kit'' @ num_text pn @ '':'' @ num_text (map_option (\<lambda>p. p + 2) pn) @
     ''010/api/peers/rpc''"

definition config_obj :: "jobj \<Rightarrow> jobj \<Rightarrow> jobj" where
  "config_obj ledger opts =
     obj_lit [(''currency'', get_prop ledger ''currency''), (''plugin'', get_prop ledger ''plugin''),
              (''store'', get_prop ledger ''store''), (''options'', Obj opts)]"

definition createConfig :: "jobj list \<Rightarrow> nat \<Rightarrow> jobj \<Rightarrow> bool \<Rightarrow> jobj \<times> diag list" where
  "createConfig ledgers n ledger isLeft =
     (let options = obj_assign []
            [get_prop ledger ''optionsCommon'',
             if isLeft then get_prop ledger ''optionsLeft'' else get_prop ledger ''optionsRight''];
          pn = peerToSide ledgers isLeft (int n);
          otherAccount = (if isLeft then get_prop ledger ''right_account''
                          else get_prop ledger ''left_account'')
      in if truthy (get_prop ledger ''rpcUri'') then
           (config_obj ledger (obj_set ''rpcUri'' (Str (rpc_url pn)) options),
            [LogRpcUri n (rpc_url pn)])
         else if truthy (get_prop ledger ''rpcUris'') then
           (let account = otherAccount;
                uris = obj_lit [(to_string account, Str (rpc_url pn))]
            in (config_obj ledger (obj_set ''rpcUris'' (Obj uris) options), [LogRpcUris n uris]))
         else (config_obj ledger options, []))"

subsection \<open>The abstract contract\<close>

text \<open>
  What the spec (section 4.3) promises of the options of a config, as a map: the
  right-biased union of the common and the side options, then the RPC address of
  the peer under \<^verbatim>\<open>rpcUri\<close>, or under \<^verbatim>\<open>rpcUris\<close> keyed by the other
  side's account, \<^verbatim>\<open>rpcUri\<close> taking precedence. The peer index is the spec's
  modular neighbour on a ring of \<open>N\<close> ledgers.
\<close>

definition spec_peer :: "nat \<Rightarrow> nat \<Rightarrow> bool \<Rightarrow> nat" where
  "spec_peer N n isLeft = (if isLeft then (n + 1) mod N else (n + N - 1) mod N)"

definition spec_url :: "nat \<Rightarrow> string" where
  "spec_url p = ''http://ilp-kit'' @ string_of_nat p @ '':'' @ string_of_nat (p + 2) @ ''010/api/peers/rpc''"

definition spec_options :: "nat \<Rightarrow> nat \<Rightarrow> jobj \<Rightarrow> bool \<Rightarrow> string \<rightharpoonup> jsv" where
  "spec_options N n ledger isLeft =
     (let merged = map_of (own_props (get_prop ledger ''optionsCommon'')) ++
                   map_of (own_props (if isLeft then get_prop ledger ''optionsLeft''
                                      else get_prop ledger ''optionsRight''));
          url = Str (spec_url (spec_peer N n isLeft));
          other = (if isLeft then get_prop ledger ''right_account'' else get_prop ledger ''left_account'')
      in if truthy (get_prop ledger ''rpcUri'') then merged(''rpcUri'' \<mapsto> url)
         else if truthy (get_prop ledger ''rpcUris'') then merged(''rpcUris'' \<mapsto> Obj [(to_string other, url)])
         else merged)"

text \<open>The options object of a config, as the spec reads it.\<close>

definition options_of :: "jobj \<Rightarrow> jobj" where
  "options_of cfg = (case map_of cfg ''options'' of Some (Obj opts) \<Rightarrow> opts | _ \<Rightarrow> [])"

subsection \<open>Lemmas\<close>

lemma config_obj_eq [model_simps]:
  "config_obj ledger opts =
     [(''currency'', get_prop ledger ''currency''), (''plugin'', get_prop ledger ''plugin''),
      (''store'', get_prop ledger ''store''), (''options'', Obj opts)]"
  by (simp add: config_obj_def obj_lit_distinct)

lemma options_of_config_obj [simp]: "options_of (config_obj ledger opts) = opts"
  by (simp add: config_obj_eq options_of_def)

lemma wf_config_obj [simp]: "wf_obj (config_obj ledger opts)"
  by (simp add: config_obj_eq wf_obj_def)

lemma string_of_int_of_nat [simp]: "string_of_int (int n) = string_of_nat n"
  by (simp add: string_of_int_def)

lemma rpc_url_spec:
  "rpc_url (Some (int p)) = spec_url p"
proof -
  have "map_option (\<lambda>p. p + 2) (Some (int p)) = Some (int (p + 2))"
    by simp
  then show ?thesis
    by (simp only: rpc_url_def spec_url_def num_text_def option.case string_of_int_of_nat)
qed

lemma peerToSide_spec:
  assumes "0 < N" "length ledgers = N"
  shows "peerToSide ledgers isLeft (int n) = Some (int (spec_peer N n isLeft))"
proof (cases isLeft)
  case True
  with assms show ?thesis
    by (simp add: peerToSide_left spec_peer_def zmod_int add.commute)
next
  case False
  from assms have h: "int (n + N - 1) = int n - 1 + int N"
    by simp
  from assms have "peerToSide ledgers False (int n) = Some ((int n - 1 + int N) mod int N)"
    by (simp add: peerToSide_right del: mod_add_self2)
  also have "\<dots> = Some (int (n + N - 1) mod int N)"
    by (simp only: h)
  also have "\<dots> = Some (int (spec_peer N n False))"
    by (simp only: spec_peer_def if_False zmod_int)
  finally show ?thesis
    using False by simp
qed

lemma map_of_merge:
  "wf_src a \<Longrightarrow> wf_src b \<Longrightarrow>
    map_of (obj_assign [] [a, b]) = map_of (own_props a) ++ map_of (own_props b)"
  by (simp add: map_of_obj_assign)

lemma wf_merge: "wf_obj (obj_assign [] srcs)"
  by (rule wf_obj_assign) (simp add: wf_obj_def)

subsection \<open>Properties\<close>

text \<open>
  C3: \<^verbatim>\<open>createConfig\<close> implements the spec's contract for the options of a
  config: on a non-empty ring, when the common and side options are well-formed
  sources, the options object of the config, read as a map, is the right-biased
  union of the common and the side options with the peer's RPC address under
  \<^verbatim>\<open>rpcUri\<close> or, failing that, under \<^verbatim>\<open>rpcUris\<close> keyed by the other side's
  account, the peer being the modular neighbour on the requested side.
\<close>

theorem createConfig_refines:
  assumes "0 < length ledgers" "wf_src (get_prop ledger ''optionsCommon'')"
    "wf_src (if isLeft then get_prop ledger ''optionsLeft'' else get_prop ledger ''optionsRight'')"
  shows "map_of (options_of (fst (createConfig ledgers n ledger isLeft))) =
    spec_options (length ledgers) n ledger isLeft"
proof -
  have pn: "peerToSide ledgers isLeft (int n) = Some (int (spec_peer (length ledgers) n isLeft))"
    using assms(1) by (rule peerToSide_spec) simp
  have m: "map_of (obj_assign [] [get_prop ledger ''optionsCommon'',
      if isLeft then get_prop ledger ''optionsLeft'' else get_prop ledger ''optionsRight'']) =
    map_of (own_props (get_prop ledger ''optionsCommon'')) ++
    map_of (own_props (if isLeft then get_prop ledger ''optionsLeft'' else get_prop ledger ''optionsRight''))"
    using assms(2,3) by (rule map_of_merge)
  show ?thesis
    by (simp add: createConfig_def spec_options_def Let_def pn m rpc_url_spec obj_lit_distinct
        del: map_add_upd)
qed

theorem createConfig_refines_witness:
  "map_of (options_of (fst (createConfig [[(''rpcUri'', Bool True)], []] 0 [(''rpcUri'', Bool True)] True)))
     ''rpcUri'' = Some (Str (spec_url 1))"
  using createConfig_refines [of "[[(''rpcUri'', Bool True)], []]" "[(''rpcUri'', Bool True)]" True 0]
  by (simp add: get_prop_def wf_src_def spec_options_def spec_peer_def)

end
