(* ===== verification/JsonStringify.thy ===== *)
theory JsonStringify
  imports JsValue
begin

text \<open>
  \<^verbatim>\<open>JSON.stringify\<close> as ECMAScript specifies it (SerializeJSONProperty and
  QuoteJSONString, no indentation), which \<^verbatim>\<open>generateConnectorLedgers\<close> and
  \<^verbatim>\<open>generateConnectorRoutes\<close> of \<^verbatim>\<open>src/generate-docker-compose.js\<close>
  (lines 95 and 108) apply to the topology structures before they are pasted into
  the manifest.

  \<open>stringify\<close> returns \<open>None\<close> for \<^verbatim>\<open>undefined\<close>, which the serializer skips
  as an object member and writes as \<^verbatim>\<open>null\<close> as an array element; an object's
  members come in own-key order. A string is quoted with the two-character escapes
  and \<^verbatim>\<open>\u00XX\<close> for the other control characters; characters are bytes, so
  lone UTF-16 surrogates do not arise.

  The lemmas show that the serializer's output contains no control character, so no
  newline: the text always fits on the single line of the manifest it is written to
  (used for the line count of a service block in \<open>Document\<close>).
\<close>

definition hex_digit :: "nat \<Rightarrow> char" where
  "hex_digit d = char_of (if d < 10 then 48 + d else 87 + d)"

definition json_esc :: "char \<Rightarrow> string" where
  "json_esc c =
     (if c = CHR 0x08 then [bsl, CHR ''b'']
      else if c = CHR 0x09 then [bsl, CHR ''t'']
      else if c = CHR 0x0A then [bsl, CHR ''n'']
      else if c = CHR 0x0C then [bsl, CHR ''f'']
      else if c = CHR 0x0D then [bsl, CHR ''r'']
      else if c = dq then [bsl, dq]
      else if c = bsl then [bsl, bsl]
      else if (of_char c :: nat) < 32 then
        [bsl, CHR ''u'', CHR ''0'', CHR ''0'', hex_digit (of_char c div 16), hex_digit (of_char c mod 16)]
      else [c])"

definition json_quote :: "string \<Rightarrow> string" where
  "json_quote s = dq # concat (map json_esc s) @ [dq]"

text \<open>The members of an object: the serialized properties, \<^verbatim>\<open>undefined\<close> ones dropped.\<close>

definition json_members :: "(string \<times> string option) list \<Rightarrow> string list" where
  "json_members ps = List.map_filter (\<lambda>(k, t). map_option (\<lambda>t. json_quote k @ '':'' @ t) t) ps"

fun stringify :: "jsv \<Rightarrow> string option" where
  "stringify Undef = None"
| "stringify Null = Some ''null''"
| "stringify (Bool b) = Some (if b then ''true'' else ''false'')"
| "stringify (Num n) = Some (string_of_int n)"
| "stringify (Str s) = Some (json_quote s)"
| "stringify (Arr vs) =
     Some (''['' @ join '','' (map (\<lambda>v. case stringify v of None \<Rightarrow> ''null'' | Some t \<Rightarrow> t) vs) @ '']'')"
| "stringify (Obj kvs) =
     Some (''{'' @ join '','' (json_members (own_keys_order (map (\<lambda>(k, v). (k, stringify v)) kvs))) @ ''}'')"

text \<open>Text without control characters, so without line breaks.\<close>

definition no_ctrl :: "string \<Rightarrow> bool" where
  "no_ctrl t \<longleftrightarrow> (\<forall>c \<in> set t. 32 \<le> (of_char c :: nat))"

subsection \<open>Lemmas: no control characters\<close>

lemma json_esc_plain [simp]:
  "c \<noteq> bsl \<Longrightarrow> c \<noteq> dq \<Longrightarrow> 32 \<le> (of_char c :: nat) \<Longrightarrow> json_esc c = [c]"
  by (auto simp: json_esc_def)

lemma no_ctrl_simps [simp]:
  "no_ctrl []" "no_ctrl (c # t) \<longleftrightarrow> 32 \<le> (of_char c :: nat) \<and> no_ctrl t"
  "no_ctrl (a @ b) \<longleftrightarrow> no_ctrl a \<and> no_ctrl b"
  "no_ctrl (concat xs) \<longleftrightarrow> (\<forall>x \<in> set xs. no_ctrl x)"
  by (auto simp: no_ctrl_def)

lemma no_ctrl_literal: "no_ctrl ''null''" "no_ctrl ''true''" "no_ctrl ''false''" "no_ctrl ''[''"
  "no_ctrl '']''" "no_ctrl ''{''" "no_ctrl ''}''" "no_ctrl '',''" "no_ctrl '':''"
  by simp_all

lemma no_ctrl_hex_digit [simp]: "d < 16 \<Longrightarrow> 32 \<le> (of_char (hex_digit d) :: nat)"
  by (simp add: hex_digit_def)

lemma no_ctrl_json_esc [simp]: "no_ctrl (json_esc c)"
  by (simp add: json_esc_def bsl_def dq_def)

lemma no_ctrl_json_quote [simp]: "no_ctrl (json_quote s)"
  by (simp add: json_quote_def dq_def)

lemma no_ctrl_string_of_nat [simp]: "no_ctrl (string_of_nat n)"
  using string_of_nat_digits [of n] by (auto simp: no_ctrl_def is_digit_def)

lemma no_ctrl_string_of_int [simp]: "no_ctrl (string_of_int i)"
  by (simp add: string_of_int_def)

lemma no_ctrl_join: "no_ctrl sep \<Longrightarrow> \<forall>x \<in> set xs. no_ctrl x \<Longrightarrow> no_ctrl (join sep xs)"
  by (induction sep xs rule: join.induct) simp_all

lemma no_ctrl_json_members:
  "\<forall>(k, t) \<in> set ps. \<forall>u. t = Some u \<longrightarrow> no_ctrl u \<Longrightarrow> \<forall>x \<in> set (json_members ps). no_ctrl x"
  by (auto simp: json_members_def List.map_filter_def)

lemma stringify_no_ctrl: "stringify v = Some t \<Longrightarrow> no_ctrl t"
proof (induction v arbitrary: t rule: stringify.induct)
  case (6 vs)
  have "\<forall>x \<in> set (map (\<lambda>v. case stringify v of None \<Rightarrow> ''null'' | Some t \<Rightarrow> t) vs). no_ctrl x"
    using "6.IH" by (auto split: option.splits)
  with "6.prems" show ?case
    by (auto intro!: no_ctrl_join)
next
  case (7 kvs)
  have "\<forall>(k, u) \<in> set (own_keys_order (map (\<lambda>(k, v). (k, stringify v)) kvs)). \<forall>w. u = Some w \<longrightarrow> no_ctrl w"
    using "7.IH" by fastforce
  then have "\<forall>x \<in> set (json_members (own_keys_order (map (\<lambda>(k, v). (k, stringify v)) kvs))). no_ctrl x"
    by (rule no_ctrl_json_members)
  with "7.prems" show ?case
    by (auto intro!: no_ctrl_join)
qed auto

end
