(* ===== verification/Topology.thy ===== *)
theory Topology
  imports ServiceConfig JsonStringify
begin

text \<open>
  The topology encoder of \<^verbatim>\<open>src/generate-docker-compose.js\<close>:
  \<^verbatim>\<open>generateConnectorLedgers\<close> (lines 78--96) and
  \<^verbatim>\<open>generateConnectorRoutes\<close> (lines 98--109). For node \<open>i\<close> the first builds
  an object keyed by the node's own connector ledger \<^verbatim>\<open>test.dev.kit<i>.\<close>, by the
  name of ledger \<open>i\<close> (its right-side config) and by the name of the next ledger
  (its left-side config); the second a one-element route list pointing at the next
  ledger. Both are serialized with \<^verbatim>\<open>JSON.stringify\<close> and log what they built.

  \<open>connector_ledgers\<close> is the object literal of lines 80--92 with the log of the two
  \<^verbatim>\<open>createConfig\<close> calls it makes; \<open>generateConnectorLedgers\<close> adds the key log
  of line 94 and the serialization of line 95. The literal's keys are computed
  (ToString of the ledger names), so equal names collapse into one property holding
  the later value; the lemmas show the three keys when the names are distinct, and
  what happens on a one-ledger ring.

  \<^verbatim>\<open>(i + 1) % ledgers.length\<close> is \<open>(i + 1) mod length ledgers\<close>: both functions
  are only called from the output loop, for \<open>i < length ledgers\<close>, where the two
  agree (on an empty list the loop body never runs).
\<close>

definition kit_prefix :: "nat \<Rightarrow> string" where
  "kit_prefix i = ''test.dev.kit'' @ string_of_nat i @ ''.''"

definition connector_account :: "nat \<Rightarrow> jobj" where
  "connector_account i =
     obj_lit [(''currency'', Str ''USD''), (''plugin'', Str ''ilp-plugin-bells''),
              (''options'', Obj (obj_lit
                 [(''account'', Str (''http://ilp-kit'' @ string_of_nat i @ '':'' @ string_of_nat (i + 2) @
                                    ''010/ledger/accounts/connector'')),
                  (''password'', Str ''password''), (''username'', Str ''connector'')]))]"

definition connector_ledgers :: "jobj list \<Rightarrow> nat \<Rightarrow> jobj \<times> diag list" where
  "connector_ledgers ledgers i =
     (let next = (i + 1) mod length ledgers;
          (own_cfg, log1) = createConfig ledgers i (ledgers ! i) False;
          (next_cfg, log2) = createConfig ledgers i (ledgers ! next) True
      in (obj_lit [(kit_prefix i, Obj (connector_account i)),
                   (to_string (get_prop (ledgers ! i) ''name''), Obj own_cfg),
                   (to_string (get_prop (ledgers ! next) ''name''), Obj next_cfg)],
          log1 @ log2))"

definition generateConnectorLedgers :: "jobj list \<Rightarrow> nat \<Rightarrow> string option \<times> diag list" where
  "generateConnectorLedgers ledgers i =
     (let (connectorLedgers, log) = connector_ledgers ledgers i
      in (stringify (Obj connectorLedgers),
          log @ [LogKeys i (map fst (own_keys_order connectorLedgers))]))"

definition connector_routes :: "jobj list \<Rightarrow> nat \<Rightarrow> jsv" where
  "connector_routes ledgers i =
     (let next = (i + 1) mod length ledgers;
          ledger = ledgers ! next
      in Arr [Obj (obj_lit [(''targetPrefix'', Str ''''),
                            (''connectorLedger'', get_prop ledger ''name''),
                            (''connectorAccount'', get_prop ledger ''right_account'')])])"

definition generateConnectorRoutes :: "jobj list \<Rightarrow> nat \<Rightarrow> string option \<times> diag list" where
  "generateConnectorRoutes ledgers i =
     (let connectorRoutes = connector_routes ledgers i
      in (stringify connectorRoutes, [LogRoutes i connectorRoutes]))"

subsection \<open>Properties\<close>

text \<open>
  C4: when the node's connector-ledger key and the names of ledger \<open>i\<close> and of the
  next ledger are three distinct strings, the connector-ledgers object of node \<open>i\<close>
  has exactly these three keys, in this order, holding the connector account, the
  right-side config of ledger \<open>i\<close> and the left-side config of the next ledger.
\<close>

theorem connector_ledgers_keys:
  assumes "distinct [kit_prefix i, to_string (get_prop (ledgers ! i) ''name''),
      to_string (get_prop (ledgers ! ((i + 1) mod length ledgers)) ''name'')]"
  shows "fst (connector_ledgers ledgers i) =
    [(kit_prefix i, Obj (connector_account i)),
     (to_string (get_prop (ledgers ! i) ''name''), Obj (fst (createConfig ledgers i (ledgers ! i) False))),
     (to_string (get_prop (ledgers ! ((i + 1) mod length ledgers)) ''name''),
      Obj (fst (createConfig ledgers i (ledgers ! ((i + 1) mod length ledgers)) True)))]"
  using assms by (simp add: connector_ledgers_def Let_def split_beta obj_lit_distinct)

theorem connector_ledgers_keys_witness:
  "map fst (fst (connector_ledgers [[(''name'', Str ''A'')], [(''name'', Str ''B'')]] 0)) =
     [''test.dev.kit0.'', ''A'', ''B'']"
  using connector_ledgers_keys [of 0 "[[(''name'', Str ''A'')], [(''name'', Str ''B'')]]"]
  by (simp add: kit_prefix_def get_prop_def)

text \<open>
  C5: on a one-ledger ring the ledger is both the node's own and the next ledger, so
  its two computed keys coincide and the literal keeps one property: the connector
  ledgers hold two entries, not three, and the ledger's right-side config is
  replaced by its left-side config.
\<close>

theorem connector_ledgers_single:
  "to_string (get_prop l ''name'') \<noteq> kit_prefix 0 \<Longrightarrow>
   fst (connector_ledgers [l] 0) =
     [(kit_prefix 0, Obj (connector_account 0)),
      (to_string (get_prop l ''name''), Obj (fst (createConfig [l] 0 l True)))]"
  by (simp add: connector_ledgers_def Let_def split_beta obj_lit_def)

theorem connector_ledgers_single_witness:
  "length (fst (connector_ledgers [[(''name'', Str ''A'')]] 0)) = 2"
  using connector_ledgers_single [of "[(''name'', Str ''A'')]"]
  by (simp add: kit_prefix_def get_prop_def)

text \<open>
  C6: when the next ledger's name and right account are strings, the routes of node
  \<open>i\<close> serialize to the one default route (empty target prefix) through that ledger
  and account.
\<close>

theorem generateConnectorRoutes_text:
  assumes "get_prop (ledgers ! ((i + 1) mod length ledgers)) ''name'' = Str n"
    "get_prop (ledgers ! ((i + 1) mod length ledgers)) ''right_account'' = Str a"
  shows "fst (generateConnectorRoutes ledgers i) =
    Some (''[{\"targetPrefix\":\"\",\"connectorLedger\":'' @ json_quote n @
          '',\"connectorAccount\":'' @ json_quote a @ ''}]'')"
  using assms
  by (simp add: generateConnectorRoutes_def connector_routes_def Let_def obj_lit_distinct
      own_keys_order_def is_array_index_def is_digit_def json_members_def List.map_filter_def
      json_quote_def char_defs)

theorem generateConnectorRoutes_text_witness:
  "fst (generateConnectorRoutes [[(''name'', Str ''L1''), (''right_account'', Str ''r'')]] 0) =
    Some (''[{\"targetPrefix\":\"\",\"connectorLedger\":'' @ json_quote ''L1'' @
          '',\"connectorAccount\":'' @ json_quote ''r'' @ ''}]'')"
  using generateConnectorRoutes_text [of "[[(''name'', Str ''L1''), (''right_account'', Str ''r'')]]" 0]
  by (simp add: get_prop_def)

end
