(* ===== verification/Cli.thy ===== *)
theory Cli
  imports Document
begin

text \<open>
  The script run as a process, \<^verbatim>\<open>src/generate-docker-compose.js\<close> lines 1--22
  and 111--165: the \<^verbatim>\<open>--help\<close> and \<^verbatim>\<open>--ledgers\<close> checks, the loading of the
  ledger file and of the optional header file, the generation, and the final
  \<^verbatim>\<open>console.log\<close>.

  The parsed command line \<^verbatim>\<open>argv\<close> (what yargs returns; its parsing is not
  modelled) is an object. The file system is a map from paths to contents, and
  \<^verbatim>\<open>path.join(process.cwd(), file)\<close> is \<open>path_join\<close> (the cwd, a slash and the
  argument, without path normalisation); \<^verbatim>\<open>path.join\<close> throws a TypeError on an
  argument that is not a string. \<^verbatim>\<open>require\<close> reads the file and parses it with a
  parser the model takes as a parameter (Node's JSON parser is not part of the
  repository), its failure being a parse error. Every exception the script does not
  catch ends the process with exit code 1, its trace on standard error: in the model
  an \<open>error\<close> value. The outcome of a run is its exit code, its standard output
  and its standard-error lines, the diagnostic log among them.
\<close>

datatype error = TypeError | FileNotFound string | ParseError string

record env =
  cwd :: string
  files :: "string \<rightharpoonup> string"

datatype err_line = ErrMsg string | Uncaught error | Diag diag

record outcome =
  exit_code :: nat
  stdout :: string
  stderr :: "err_line list"

text \<open>\<^verbatim>\<open>console.log(a, b, c, d)\<close>: the arguments joined by spaces, then a newline.\<close>

definition usage :: string where
  "usage =
     join '' ''
       [''usage: generate-docker-compose.js --ledgers <json file>'' @ nl @ nl,
        '' --ledgers <json file> : (required) load json file containing ledgers.'' @ nl,
        '' --header  <file>      : (optional) start docker compose with contents'' @ nl,
        ''                         of <file> instead of default docker-compose.'' @ nl] @ nl"

definition path_join :: "string \<Rightarrow> string \<Rightarrow> string" where
  "path_join dir p = dir @ ''/'' @ p"

definition read_file :: "env \<Rightarrow> jsv \<Rightarrow> error + string" where
  "read_file e file =
     (case file of
        Str p \<Rightarrow> (case files e (path_join (cwd e) p) of
                   None \<Rightarrow> Inl (FileNotFound (path_join (cwd e) p))
                 | Some c \<Rightarrow> Inr c)
      | _ \<Rightarrow> Inl TypeError)"

definition loadHeaderFile :: "env \<Rightarrow> jsv \<Rightarrow> error + string" where
  "loadHeaderFile e file = read_file e file"

definition require_ledgers :: "env \<Rightarrow> (string \<Rightarrow> jobj list option) \<Rightarrow> jsv \<Rightarrow> error + jobj list" where
  "require_ledgers e parse file =
     (case read_file e file of
        Inl err \<Rightarrow> Inl err
      | Inr c \<Rightarrow> (case parse c of None \<Rightarrow> Inl (ParseError c) | Some ls \<Rightarrow> Inr ls))"

definition failed :: "error \<Rightarrow> outcome" where
  "failed err = \<lparr>exit_code = 1, stdout = [], stderr = [Uncaught err]\<rparr>"

definition main :: "jobj \<Rightarrow> env \<Rightarrow> (string \<Rightarrow> jobj list option) \<Rightarrow> outcome" where
  "main argv e parse =
     (if truthy (get_prop argv ''help'') then \<lparr>exit_code = 0, stdout = usage, stderr = []\<rparr>
      else if \<not> truthy (get_prop argv ''ledgers'') then
        \<lparr>exit_code = 1, stdout = [], stderr = [ErrMsg ''must specify --ledgers <json file>'']\<rparr>
      else
        (case require_ledgers e parse (get_prop argv ''ledgers'') of
           Inl err \<Rightarrow> failed err
         | Inr ledgers \<Rightarrow>
             (case (if truthy (get_prop argv ''header'') then loadHeaderFile e (get_prop argv ''header'')
                    else Inr default_header) of
                Inl err \<Rightarrow> failed err
              | Inr header \<Rightarrow>
                  (let (file, log) = generate ledgers header
                   in \<lparr>exit_code = 0, stdout = file @ nl, stderr = map Diag log\<rparr>))))"

text \<open>A concrete environment for the witnesses: one ledger file holding an empty list.\<close>

definition demo_env :: env where
  "demo_env = \<lparr>cwd = ''/w'', files = [''/w/l.json'' \<mapsto> ''[]'']\<rparr>"

definition demo_parse :: "string \<Rightarrow> jobj list option" where
  "demo_parse c = (if c = ''[]'' then Some [] else None)"

subsection \<open>Properties\<close>

text \<open>
  C11: a truthy \<^verbatim>\<open>--help\<close> prints the usage text and exits with status 0,
  whatever else the command line holds, \<^verbatim>\<open>--ledgers\<close> included.
\<close>

theorem main_help:
  "truthy (get_prop argv ''help'') \<Longrightarrow> main argv e parse = \<lparr>exit_code = 0, stdout = usage, stderr = []\<rparr>"
  by (simp add: main_def)

theorem main_help_witness:
  "main [(''help'', Bool True)] demo_env demo_parse = \<lparr>exit_code = 0, stdout = usage, stderr = []\<rparr>"
  using main_help [of "[(''help'', Bool True)]" demo_env demo_parse] by (simp add: get_prop_def)

text \<open>
  C12: without \<^verbatim>\<open>--help\<close> and without a (non-empty) \<^verbatim>\<open>--ledgers\<close>, the run exits
  with status 1, prints the error message on standard error and nothing on standard
  output.
\<close>

theorem main_missing_ledgers:
  "\<not> truthy (get_prop argv ''help'') \<Longrightarrow> \<not> truthy (get_prop argv ''ledgers'') \<Longrightarrow>
   main argv e parse =
     \<lparr>exit_code = 1, stdout = [], stderr = [ErrMsg ''must specify --ledgers <json file>'']\<rparr>"
  by (simp add: main_def)

theorem main_missing_ledgers_witness:
  "main [(''ledgers'', Str [])] demo_env demo_parse =
     \<lparr>exit_code = 1, stdout = [], stderr = [ErrMsg ''must specify --ledgers <json file>'']\<rparr>"
  using main_missing_ledgers [of "[(''ledgers'', Str [])]" demo_env demo_parse] by (simp add: get_prop_def)

text \<open>
  C13: when the ledger file exists under the working directory and parses, and no
  header file is given, the run exits with status 0, prints the generated document
  (the default header and the service blocks) followed by a newline, and writes the
  generation's diagnostic log to standard error.
\<close>

theorem main_success:
  assumes "\<not> truthy (get_prop argv ''help'')" "get_prop argv ''ledgers'' = Str p" "p \<noteq> []"
    "files e (path_join (cwd e) p) = Some c" "parse c = Some ledgers"
    "\<not> truthy (get_prop argv ''header'')"
  shows "main argv e parse =
    \<lparr>exit_code = 0, stdout = fst (generate ledgers default_header) @ nl,
     stderr = map Diag (snd (generate ledgers default_header))\<rparr>"
  using assms by (simp add: main_def require_ledgers_def read_file_def split_beta)

theorem main_success_witness:
  "main [(''ledgers'', Str ''l.json'')] demo_env demo_parse =
    \<lparr>exit_code = 0, stdout = fst (generate [] default_header) @ nl,
     stderr = map Diag (snd (generate [] default_header))\<rparr>"
  using main_success [of "[(''ledgers'', Str ''l.json'')]" "''l.json''" demo_env "''[]''" demo_parse "[]"]
  by (simp add: get_prop_def demo_env_def demo_parse_def path_join_def)

text \<open>
  C14: every run exits with status 0 or 1, and a run that exits with 1 (missing
  argument, missing or unparsable file, non-string path) prints nothing on standard
  output.
\<close>

theorem main_exit_codes:
  "exit_code (main argv e parse) \<le> 1 \<and>
   (exit_code (main argv e parse) = 1 \<longrightarrow> stdout (main argv e parse) = [])"
  by (simp add: main_def failed_def split_beta split: sum.split)

theorem main_exit_codes_witness:
  "exit_code (main [(''ledgers'', Str ''x.json'')] demo_env demo_parse) = 1 \<and>
   stdout (main [(''ledgers'', Str ''x.json'')] demo_env demo_parse) = []"
proof -
  have "exit_code (main [(''ledgers'', Str ''x.json'')] demo_env demo_parse) = 1"
    by (simp add: main_def get_prop_def require_ledgers_def read_file_def demo_env_def
        path_join_def failed_def)
  then show ?thesis
    using main_exit_codes [of "[(''ledgers'', Str ''x.json'')]" demo_env demo_parse] by simp
qed

text \<open>
  C22: the \<^verbatim>\<open>--header\<close> file, when given (as a non-empty path) and the ledger
  file loads: if the file exists under the working directory its contents replace the
  default header verbatim and the run succeeds; if it does not, the run ends with the
  uncaught file-not-found error of \<^verbatim>\<open>readFileSync\<close> for that path, exit code 1
  and nothing on standard output.
\<close>

theorem main_header_file:
  assumes "\<not> truthy (get_prop argv ''help'')" "truthy (get_prop argv ''ledgers'')"
    "require_ledgers e parse (get_prop argv ''ledgers'') = Inr ledgers"
    "get_prop argv ''header'' = Str q" "q \<noteq> []"
  shows "main argv e parse =
    (case files e (path_join (cwd e) q) of
       Some c \<Rightarrow> \<lparr>exit_code = 0, stdout = fst (generate ledgers c) @ nl,
                 stderr = map Diag (snd (generate ledgers c))\<rparr>
     | None \<Rightarrow> \<lparr>exit_code = 1, stdout = [], stderr = [Uncaught (FileNotFound (path_join (cwd e) q))]\<rparr>)"
  using assms
  by (simp add: main_def loadHeaderFile_def read_file_def failed_def split_beta split: option.split)

theorem main_header_file_witness:
  "main [(''ledgers'', Str ''l.json''), (''header'', Str ''h.yml'')] demo_env demo_parse =
     \<lparr>exit_code = 1, stdout = [], stderr = [Uncaught (FileNotFound ''/w/h.yml'')]\<rparr>"
proof -
  have r: "require_ledgers demo_env demo_parse (Str ''l.json'') = Inr []"
    by (simp add: require_ledgers_def read_file_def demo_env_def demo_parse_def path_join_def)
  show ?thesis
    using main_header_file [of "[(''ledgers'', Str ''l.json''), (''header'', Str ''h.yml'')]"
        demo_env demo_parse "[]" "''h.yml''"] r
    by (simp add: get_prop_def demo_env_def path_join_def)
qed

end
