(* ===== verification/Quoting.thy ===== *)
theory Quoting
  imports Document
begin

text \<open>
  The service block of \<^verbatim>\<open>src/generate-docker-compose.js\<close> (lines 152--153)
  pastes the two JSON texts of the topology encoder between single quotes, as YAML
  single-quoted scalars, without escaping. Such a scalar ends at the first single
  quote, and \<^verbatim>\<open>JSON.stringify\<close> does not escape that character. This theory
  follows single quotes through the generator: \<open>str_chars\<close> collects the
  characters of every string of a value (keys and string values, recursively) and
  \<open>sq_free\<close> says none of them is a single quote. Every built-in the generator
  applies (property read and write, object literals, ToString,
  \<^verbatim>\<open>Object.assign\<close>, \<^verbatim>\<open>JSON.stringify\<close>) and every text it adds
  (\<open>rpc_url\<close>, the connector account, the key prefix) introduces no single quote,
  so the two scalars of a block are well-formed exactly as far as the input ledgers
  are free of single quotes.
\<close>

text \<open>The characters of the strings of a value, keys included.\<close>

fun str_chars :: "jsv \<Rightarrow> char list" where
  "str_chars (Str s) = s"
| "str_chars (Arr vs) = concat (map str_chars vs)"
| "str_chars (Obj kvs) = concat (map (\<lambda>(k, v). k @ str_chars v) kvs)"
| "str_chars _ = []"

definition sq_free :: "jsv \<Rightarrow> bool" where
  "sq_free v \<longleftrightarrow> sq \<notin> set (str_chars v)"

subsection \<open>Values free of single quotes\<close>

lemma sq_free_Obj_iff:
  "sq_free (Obj kvs) \<longleftrightarrow> (\<forall>(k, v) \<in> set kvs. sq \<notin> set k \<and> sq_free v)"
  by (auto simp: sq_free_def)

lemma sq_free_Arr_iff: "sq_free (Arr vs) \<longleftrightarrow> (\<forall>v \<in> set vs. sq_free v)"
  by (auto simp: sq_free_def)

lemma sq_free_simps [simp]:
  "sq_free (Obj [])" "sq_free (Obj ((k, v) # kvs)) \<longleftrightarrow> sq \<notin> set k \<and> sq_free v \<and> sq_free (Obj kvs)"
  "sq_free (Str s) \<longleftrightarrow> sq \<notin> set s"
  "sq_free Undef" "sq_free Null" "sq_free (Bool b)" "sq_free (Num n)"
  by (auto simp: sq_free_def)

lemma sq_free_get_prop: "sq_free (Obj l) \<Longrightarrow> sq_free (get_prop l k)"
  by (auto simp: get_prop_def sq_free_Obj_iff split: option.split dest!: map_of_SomeD)

lemma sq_notin_string_of_int [simp]: "sq \<notin> set (string_of_int i)"
proof -
  have "CHR ''-'' \<noteq> sq" by (simp add: sq_def)
  then show ?thesis by (simp add: string_of_int_def)
qed

lemma sq_notin_to_string: "sq_free v \<Longrightarrow> sq \<notin> set (to_string v)"
proof (induction v rule: to_string.induct)
  case (6 vs)
  have "sq \<notin> set '','' " by (simp add: sq_def)
  with 6 show ?case
    using set_join_subset [of "'',''" "map (\<lambda>v. if v = Undef \<or> v = Null then [] else to_string v) vs"]
    by (fastforce simp: sq_free_Arr_iff)
qed (simp_all only: to_string.simps sq_notin_string_of_int not_False_eq_True, simp_all add: sq_def)

lemma sq_free_obj_set: "sq \<notin> set k \<Longrightarrow> sq_free v \<Longrightarrow> sq_free (Obj ob) \<Longrightarrow> sq_free (Obj (obj_set k v ob))"
  by (induction k v ob rule: obj_set.induct) auto

lemma sq_free_fold_obj_set:
  "\<forall>(k, v) \<in> set ps. sq \<notin> set k \<and> sq_free v \<Longrightarrow> sq_free (Obj ob) \<Longrightarrow>
    sq_free (Obj (fold (\<lambda>(k, v). obj_set k v) ps ob))"
  by (induction ps arbitrary: ob) (auto intro!: sq_free_obj_set)

lemma sq_free_obj_lit: "\<forall>(k, v) \<in> set ps. sq \<notin> set k \<and> sq_free v \<Longrightarrow> sq_free (Obj (obj_lit ps))"
  unfolding obj_lit_def by (rule sq_free_fold_obj_set) simp_all

lemma sq_free_own_props:
  assumes "sq_free v"
  shows "sq_free (Obj (own_props v))"
proof (cases v)
  case (Obj kvs)
  then show ?thesis
    using \<open>sq_free v\<close> by (simp add: sq_free_Obj_iff set_own_keys_order)
next
  case (Str s)
  then show ?thesis
    using \<open>sq_free v\<close> by (auto simp: sq_free_Obj_iff set_zip) (metis nth_mem)
next
  case (Arr vs)
  then show ?thesis
    using \<open>sq_free v\<close> by (auto simp: sq_free_Obj_iff sq_free_Arr_iff set_zip)
qed simp_all

lemma sq_free_obj_assign:
  "sq_free (Obj t) \<Longrightarrow> \<forall>src \<in> set srcs. sq_free src \<Longrightarrow> sq_free (Obj (obj_assign t srcs))"
proof (induction srcs arbitrary: t)
  case (Cons src srcs)
  have "sq_free (Obj (fold (\<lambda>(k, v). obj_set k v) (own_props src) t))"
    using Cons.prems sq_free_own_props [of src]
    by (intro sq_free_fold_obj_set) (simp_all add: sq_free_Obj_iff)
  with Cons show ?case by (simp add: obj_assign_def)
qed (simp add: obj_assign_def)

subsection \<open>The serializer adds no single quote\<close>

lemma notin_join: "c \<notin> set sep \<Longrightarrow> \<forall>x \<in> set xs. c \<notin> set x \<Longrightarrow> c \<notin> set (join sep xs)"
  using set_join_subset [of sep xs] by blast

lemma hex_digit_not_sq: "d < 16 \<Longrightarrow> hex_digit d \<noteq> sq"
proof
  assume "d < 16" "hex_digit d = sq"
  then have "(of_char (hex_digit d) :: nat) = of_char sq" by simp
  with \<open>d < 16\<close> show False by (simp add: hex_digit_def sq_def split: if_splits)
qed

lemma sq_notin_json_esc: "sq \<in> set (json_esc c) \<Longrightarrow> c = sq"
proof (rule ccontr)
  assume a: "sq \<in> set (json_esc c)" "c \<noteq> sq"
  have h: "(of_char c :: nat) < 32 \<Longrightarrow> hex_digit (of_char c div 16) \<noteq> sq \<and> hex_digit (of_char c mod 16) \<noteq> sq"
    by (simp add: hex_digit_not_sq)
  have l: "bsl \<noteq> sq" "dq \<noteq> sq" "CHR ''b'' \<noteq> sq" "CHR ''t'' \<noteq> sq" "CHR ''n'' \<noteq> sq" "CHR ''f'' \<noteq> sq"
    "CHR ''r'' \<noteq> sq" "CHR ''u'' \<noteq> sq" "CHR ''0'' \<noteq> sq"
    by (simp_all add: bsl_def dq_def sq_def)
  from a h l show False
    unfolding json_esc_def by (auto split: if_splits)
qed

lemma sq_notin_json_quote [simp]: "sq \<notin> set (json_quote s) \<longleftrightarrow> sq \<notin> set s"
proof -
  have "sq \<noteq> dq" by (simp add: sq_def dq_def)
  moreover have "sq \<in> set (json_esc sq)" by (simp add: json_esc_def sq_def dq_def bsl_def)
  ultimately show ?thesis
    by (auto simp: json_quote_def dest: sq_notin_json_esc)
qed

lemma sq_notin_literals: "sq \<notin> set '',''" "sq \<notin> set '':''" "sq \<notin> set ''{''" "sq \<notin> set ''}''"
  "sq \<notin> set ''[''" "sq \<notin> set '']''" "sq \<notin> set ''null''" "sq \<notin> set ''true''" "sq \<notin> set ''false''"
  by (simp_all add: sq_def)

lemma stringify_sq_free: "stringify v = Some t \<Longrightarrow> sq_free v \<Longrightarrow> sq \<notin> set t"
proof (induction v arbitrary: t rule: stringify.induct)
  case (6 vs)
  have "\<forall>x \<in> set (map (\<lambda>v. case stringify v of None \<Rightarrow> ''null'' | Some t \<Rightarrow> t) vs). sq \<notin> set x"
  proof
    fix x assume "x \<in> set (map (\<lambda>v. case stringify v of None \<Rightarrow> ''null'' | Some t \<Rightarrow> t) vs)"
    then obtain v where v: "v \<in> set vs" "x = (case stringify v of None \<Rightarrow> ''null'' | Some t \<Rightarrow> t)" by auto
    with "6.prems"(2) have "sq_free v" by (simp add: sq_free_Arr_iff)
    with v "6.IH" [OF v(1)] show "sq \<notin> set x" by (auto simp: sq_def split: option.splits)
  qed
  then have "sq \<notin> set (join '','' (map (\<lambda>v. case stringify v of None \<Rightarrow> ''null'' | Some t \<Rightarrow> t) vs))"
    by (rule notin_join [rotated]) (rule sq_notin_literals)
  with "6.prems"(1) show ?case by (auto simp: sq_def)
next
  case (7 kvs)
  let ?ps = "own_keys_order (map (\<lambda>(k, v). (k, stringify v)) kvs)"
  have "\<forall>x \<in> set (json_members ?ps). sq \<notin> set x"
  proof
    fix x assume "x \<in> set (json_members ?ps)"
    then obtain k v u where kv: "(k, v) \<in> set kvs" "stringify v = Some u" "x = json_quote k @ '':'' @ u"
      by (auto simp: json_members_def List.map_filter_def set_own_keys_order)
    with "7.prems"(2) have "sq \<notin> set k" "sq_free v" by (auto simp: sq_free_Obj_iff)
    moreover from \<open>sq \<notin> set k\<close> have "sq \<notin> set (json_quote k)" by simp
    ultimately show "sq \<notin> set x" using kv "7.IH" [OF kv(1) refl] by (auto simp: sq_def)
  qed
  then have "sq \<notin> set (join '','' (json_members ?ps))"
    by (rule notin_join [rotated]) (rule sq_notin_literals)
  with "7.prems"(1) show ?case by (auto simp: sq_def)
qed (simp_all, auto simp: sq_def)

subsection \<open>The generator adds no single quote\<close>

lemma sq_eq: "sq = c \<longleftrightarrow> c = CHR 0x27" "c = sq \<longleftrightarrow> c = CHR 0x27"
  by (auto simp: sq_def)

lemma sq_notin_num_text [simp]: "sq \<notin> set (num_text p)"
  by (cases p) (simp_all add: num_text_def sq_eq)

lemma sq_notin_rpc_url [simp]: "sq \<notin> set (rpc_url pn)"
  by (simp add: rpc_url_def sq_eq)

lemma sq_free_config_obj:
  "sq_free (Obj ledger) \<Longrightarrow> sq_free (Obj opts) \<Longrightarrow> sq_free (Obj (config_obj ledger opts))"
  by (simp add: config_obj_eq sq_eq sq_free_get_prop)

lemma sq_free_createConfig:
  assumes "sq_free (Obj ledger)"
  shows "sq_free (Obj (fst (createConfig ledgers n ledger isLeft)))"
proof -
  let ?opts = "obj_assign [] [get_prop ledger ''optionsCommon'',
      if isLeft then get_prop ledger ''optionsLeft'' else get_prop ledger ''optionsRight'']"
  have o: "sq_free (Obj ?opts)"
    using assms by (intro sq_free_obj_assign) (simp_all add: sq_free_get_prop)
  have a: "sq \<notin> set (to_string (if isLeft then get_prop ledger ''right_account'' else get_prop ledger ''left_account''))"
    using assms by (simp add: sq_notin_to_string sq_free_get_prop)
  show ?thesis
    using assms o a
    by (simp add: createConfig_def Let_def sq_free_config_obj sq_free_obj_set sq_free_obj_lit sq_eq)
qed

lemma sq_free_connector_ledgers:
  assumes "sq_free (Obj (ledgers ! i))" "sq_free (Obj (ledgers ! ((i + 1) mod length ledgers)))"
  shows "sq_free (Obj (fst (connector_ledgers ledgers i)))"
  using assms
  by (simp add: connector_ledgers_def Let_def split_beta sq_free_obj_lit sq_free_createConfig
      sq_notin_to_string sq_free_get_prop kit_prefix_def connector_account_def sq_eq)

lemma sq_free_connector_routes:
  "sq_free (Obj (ledgers ! ((i + 1) mod length ledgers))) \<Longrightarrow> sq_free (connector_routes ledgers i)"
  by (simp add: connector_routes_def Let_def sq_free_Arr_iff sq_free_obj_lit sq_free_get_prop sq_eq)

lemma sq_notin_json_text: "(\<forall>t. r = Some t \<longrightarrow> sq \<notin> set t) \<Longrightarrow> sq \<notin> set (json_text r)"
  by (cases r) (simp_all add: json_text_def sq_eq)

lemma service_block_routes_line:
  "sublist ((''      CONNECTOR_ROUTES: '' @ [sq] @ json_text (fst (generateConnectorRoutes ledgers i)) @ [sq]) @ nl)
     (fst (service_block ledgers i))"
  unfolding service_block_def Let_def split_beta fst_conv
  by (rule sublist_trans' [OF sublist_lns sublist_append_leftI]) simp

subsection \<open>Properties\<close>

text \<open>
  C19: when no string of any ledger (keys and values, nested ones included) holds a
  single quote, the block of every node \<open>i\<close> of the document holds its
  \<^verbatim>\<open>CONNECTOR_LEDGERS\<close> and \<^verbatim>\<open>CONNECTOR_ROUTES\<close> lines with JSON texts free
  of single quotes, so both single-quoted YAML scalars end where the template
  closes them.
\<close>

theorem yaml_values_quoted:
  assumes "\<forall>l \<in> set ledgers. sq_free (Obj l)" "i < length ledgers"
  shows "sublist ((''      CONNECTOR_LEDGERS: '' @ [sq] @ json_text (fst (generateConnectorLedgers ledgers i)) @ [sq]) @ nl)
      (fst (generate ledgers h)) \<and>
    sq \<notin> set (json_text (fst (generateConnectorLedgers ledgers i))) \<and>
    sublist ((''      CONNECTOR_ROUTES: '' @ [sq] @ json_text (fst (generateConnectorRoutes ledgers i)) @ [sq]) @ nl)
      (fst (generate ledgers h)) \<and>
    sq \<notin> set (json_text (fst (generateConnectorRoutes ledgers i)))"
proof -
  have "(i + 1) mod length ledgers < length ledgers"
    using assms(2) by (intro mod_less_divisor) arith
  then have l: "sq_free (Obj (ledgers ! i))" "sq_free (Obj (ledgers ! ((i + 1) mod length ledgers)))"
    using assms by (simp_all del: mod_less_divisor)
  have doc: "sublist (fst (service_block ledgers i)) (fst (generate ledgers h))"
    using assms(2) by (rule document_has_block)
  have cl: "sq \<notin> set (json_text (fst (generateConnectorLedgers ledgers i)))"
    using stringify_sq_free [OF _ sq_free_connector_ledgers [OF l]]
    by (intro sq_notin_json_text) (simp add: generateConnectorLedgers_def split_beta)
  have cr: "sq \<notin> set (json_text (fst (generateConnectorRoutes ledgers i)))"
    using stringify_sq_free [OF _ sq_free_connector_routes [OF l(2)]]
    by (intro sq_notin_json_text) (simp add: generateConnectorRoutes_def Let_def)
  show ?thesis
    using cl cr doc service_block_ledgers_line [of ledgers i] service_block_routes_line [of ledgers i]
    by (blast intro: sublist_trans')
qed

theorem yaml_values_quoted_witness:
  "sq \<notin> set (json_text (fst (generateConnectorLedgers [[(''name'', Str ''A'')], [(''name'', Str ''B'')]] 0))) \<and>
   sq \<notin> set (json_text (fst (generateConnectorRoutes [[(''name'', Str ''A'')], [(''name'', Str ''B'')]] 0)))"
proof -
  have "\<forall>l \<in> set [[(''name'', Str ''A'')], [(''name'', Str ''B'')]]. sq_free (Obj l)"
    by (simp add: sq_eq)
  then show ?thesis
    using yaml_values_quoted [of "[[(''name'', Str ''A'')], [(''name'', Str ''B'')]]" 0 default_header]
    by simp
qed

end
